theory Spec2Isabelle
  imports Complex_Main
begin

section \<open>Data model\<close>

text \<open>
  The records follow the Mongoose schemas \<^verbatim>\<open>CandleData\<close>, \<^verbatim>\<open>Prediction\<close> and
  \<^verbatim>\<open>SessionData\<close> and the object literals built by the services. Instants are
  milliseconds since the epoch (\<^verbatim>\<open>Date.getTime()\<close>), a price is the rational that a finite
  double denotes, counters
  and confidences are integers. Fields that none of the embedded operations reads
  (screenshot paths, cookies, technical indicators) are left out.
\<close>

datatype direction = Up | Down

record candle =
  timestamp :: int
  tradingPair :: string
  timeframe :: int
  "open" :: rat
  high :: rat
  low :: rat
  close :: rat
  direction :: direction
  change :: rat
  extractionMethod :: string
  confidenceScore :: int
  sessionId :: string

text \<open>The objects pushed by \<^verbatim>\<open>findSimilarPatterns\<close> and by the tally of \<^verbatim>\<open>predictFromPatterns\<close>.\<close>

record patternMatch =
  matchTimestamp :: int
  pattern :: "direction list"
  nextDirection :: direction
  nextCandle :: "rat \<times> rat \<times> rat"
  similarity :: int

record patternDetail =
  detailTimestamp :: int
  detailNextDirection :: direction
  detailSimilarity :: int

datatype features =
  PatternFeatures "direction list" nat "nat \<times> nat" string
| TrendFeatures "direction list" nat nat nat "direction option" string

text \<open>The prediction object returned by the three prediction methods.\<close>

record predictionData =
  predDirection :: direction
  confidence :: int
  algorithmUsed :: string
  patternId :: "string option"
  similarPatternsFound :: "patternDetail list"
  features :: features

section \<open>Prediction service\<close>

subsection \<open>Trend analysis: \<^verbatim>\<open>predictFromTrend\<close>\<close>

text \<open>
  The backwards loop \<^verbatim>\<open>for (let i = directions.length - 2; i >= 0; i--)\<close> with its
  \<^verbatim>\<open>break\<close>. The index is an \<^typ>\<open>int\<close> because it starts at \<open>-1\<close> or \<open>-2\<close> on short
  arrays; \<^verbatim>\<open>lastDirection\<close> is \<^verbatim>\<open>undefined\<close> (here \<open>None\<close>) on an empty array.
  Nothing in the body can throw on an array of candles, so the \<^verbatim>\<open>catch\<close> with its random
  direction is unreachable; \<^verbatim>\<open>Math.round\<close> of the integer confidence is the identity.
\<close>

function consecutiveLoop :: "direction list \<Rightarrow> direction option \<Rightarrow> int \<Rightarrow> nat \<Rightarrow> nat" where
  "consecutiveLoop directions lastDirection i consecutiveCount =
     (if i \<ge> 0 then
        (if Some (directions ! nat i) = lastDirection
         then consecutiveLoop directions lastDirection (i - 1) (consecutiveCount + 1)
         else consecutiveCount)
      else consecutiveCount)"
  by pat_completeness auto
termination
  by (relation "measure (\<lambda>(directions, lastDirection, i, consecutiveCount). nat (i + 1))") auto

declare consecutiveLoop.simps [simp del]

definition reverseOf :: "direction option \<Rightarrow> direction" where
  \<comment> \<open>\<^verbatim>\<open>lastDirection === 'up' ? 'down' : 'up'\<close>\<close>
  "reverseOf lastDirection = (if lastDirection = Some Up then Down else Up)"

definition predictFromTrend :: "candle list \<Rightarrow> predictionData" where
  "predictFromTrend recentCandles =
     (let directions = map direction recentCandles;
          upCount = length (filter (\<lambda>d. d = Up) directions);
          downCount = length (filter (\<lambda>d. d = Down) directions);
          lastDirection = (if directions = [] then None else Some (last directions));
          consecutiveCount = consecutiveLoop directions lastDirection (int (length directions) - 2) 1;
          predictedDirection =
            (if consecutiveCount \<ge> 3 then reverseOf lastDirection
             else if upCount > downCount then Up else Down);
          conf =
            (if consecutiveCount \<ge> 3 then 60 + int consecutiveCount * 5
             else 55 + \<bar>int upCount - int downCount\<bar> * 5)
      in \<lparr> predDirection = predictedDirection,
           confidence = min 95 conf,
           algorithmUsed = ''trend_analysis'',
           patternId = None,
           similarPatternsFound = [],
           features = TrendFeatures directions upCount downCount consecutiveCount lastDirection
                        (if upCount > downCount then ''bullish'' else ''bearish'') \<rparr>)"

subsection \<open>Fusion: \<^verbatim>\<open>combinePredictions\<close>\<close>

fun combinePredictions :: "predictionData option \<Rightarrow> predictionData option \<Rightarrow> predictionData option" where
  "combinePredictions (Some patternPred) (Some trendPred) =
     (if predDirection patternPred = predDirection trendPred
      then Some (patternPred\<lparr> confidence := min 95 (confidence patternPred + 10),
                              algorithmUsed := ''pattern_matching_trend_confirmed'' \<rparr>)
      else Some (patternPred\<lparr> confidence := max 50 (confidence patternPred - 15),
                              algorithmUsed := ''pattern_matching_trend_conflict'' \<rparr>))"
| "combinePredictions (Some patternPred) None = Some patternPred"
| "combinePredictions None trendPred = trendPred"

subsection \<open>Pattern search: \<^verbatim>\<open>findSimilarPatterns\<close>\<close>

text \<open>
  The query \<^verbatim>\<open>CandleData.find({tradingPair, timestamp: {$lt: recentCandles[0].timestamp}})
  .sort({timestamp: 1}).limit(1000)\<close> over the collection, given as the list of its
  documents in insertion order. The sort is ascending and stable, the limit keeps the first
  1000 documents of the sorted result.
\<close>

definition historicalCandles :: "candle list \<Rightarrow> candle \<Rightarrow> candle list" where
  "historicalCandles store first =
     take 1000 (sort_key timestamp
       (filter (\<lambda>c. tradingPair c = tradingPair first \<and> timestamp c < timestamp first) store))"

definition isMatch :: "direction list \<Rightarrow> direction list \<Rightarrow> bool" where
  \<comment> \<open>\<^verbatim>\<open>targetPattern.every((dir, index) => dir === windowPattern[index])\<close>\<close>
  "isMatch targetPattern windowPattern =
     list_all (\<lambda>index. index < length windowPattern \<and> targetPattern ! index = windowPattern ! index)
       [0 ..< length targetPattern]"

text \<open>
  The sliding-window loop \<^verbatim>\<open>for (let i = 0; i <= historicalCandles.length - patternLength - 1; i++)\<close>;
  \<open>matches\<close> is the array the loop pushes to. \<^verbatim>\<open>if (nextCandle)\<close> is the test that index
  \<open>i + patternLength\<close> is inside the array.
\<close>

function scanWindows :: "direction list \<Rightarrow> candle list \<Rightarrow> nat \<Rightarrow> patternMatch list \<Rightarrow> patternMatch list" where
  "scanWindows targetPattern historical i matches =
     (if int i \<le> int (length historical) - int (length targetPattern) - 1 then
        (let patternLength = length targetPattern;
             windowCandles = take patternLength (drop i historical);
             windowPattern = map direction windowCandles
         in if isMatch targetPattern windowPattern \<and> i + patternLength < length historical
            then (let next = historical ! (i + patternLength)
                  in scanWindows targetPattern historical (i + 1)
                       (matches @ [\<lparr> matchTimestamp = timestamp (historical ! i),
                                     pattern = windowPattern,
                                     nextDirection = direction next,
                                     nextCandle = (open next, close next, change next),
                                     similarity = 100 \<rparr>]))
            else scanWindows targetPattern historical (i + 1) matches)
      else matches)"
  by pat_completeness auto
termination
  by (relation "measure (\<lambda>(targetPattern, historical, i, matches). length historical - i)") auto

declare scanWindows.simps [simp del]

text \<open>
  On an empty \<^verbatim>\<open>recentCandles\<close> the access \<^verbatim>\<open>recentCandles[0].tradingPair\<close> throws and the
  \<^verbatim>\<open>catch\<close> returns \<^verbatim>\<open>[]\<close>.
\<close>

definition findSimilarPatterns :: "candle list \<Rightarrow> candle list \<Rightarrow> patternMatch list" where
  "findSimilarPatterns store recentCandles =
     (case recentCandles of
        [] \<Rightarrow> []
      | first # _ \<Rightarrow>
          take 20 (scanWindows (map direction recentCandles) (historicalCandles store first) 0 []))"

subsection \<open>Pattern matching: \<^verbatim>\<open>predictFromPatterns\<close>\<close>

fun directionName :: "direction \<Rightarrow> string" where
  "directionName Up = ''up''"
| "directionName Down = ''down''"

fun joinWith :: "string \<Rightarrow> string list \<Rightarrow> string" where
  "joinWith sep [] = []"
| "joinWith sep [x] = x"
| "joinWith sep (x # y # ys) = x @ sep @ joinWith sep (y # ys)"

text \<open>
  The \<^verbatim>\<open>forEach\<close> that counts \<^verbatim>\<open>outcomes[pattern.nextDirection]++\<close> and pushes the pattern
  details; the state is \<open>((up, down), patternDetails)\<close>. A stored direction is \<^verbatim>\<open>'up'\<close> or
  \<^verbatim>\<open>'down'\<close>, so the guard \<^verbatim>\<open>if (pattern.nextDirection)\<close> always holds.
\<close>

fun tallyStep :: "(nat \<times> nat) \<times> patternDetail list \<Rightarrow> patternMatch \<Rightarrow> (nat \<times> nat) \<times> patternDetail list" where
  "tallyStep ((up, down), patternDetails) p =
     ((case nextDirection p of Up \<Rightarrow> (up + 1, down) | Down \<Rightarrow> (up, down + 1)),
      patternDetails @ [\<lparr> detailTimestamp = matchTimestamp p,
                           detailNextDirection = nextDirection p,
                           detailSimilarity = (if similarity p = 0 then 100 else similarity p) \<rparr>])"

definition tallyOutcomes :: "candle list \<Rightarrow> patternMatch list \<Rightarrow> predictionData option" where
  \<comment> \<open>the body of \<^verbatim>\<open>predictFromPatterns\<close> from the test \<^verbatim>\<open>similarPatterns.length === 0\<close> on\<close>
  "tallyOutcomes recentCandles similarPatterns =
     (let patternSignature = joinWith ''-'' (map (directionName \<circ> direction) recentCandles)
      in if length similarPatterns = 0 then None
         else
           (let ((up, down), patternDetails) = foldl tallyStep ((0, 0), []) similarPatterns;
                totalPatterns = up + down;
                winningDirection = (if up > down then Up else Down);
                winningCount = max up down;
                conf = min 95 (round ((rat_of_nat winningCount / rat_of_nat totalPatterns) * 100))
            in Some \<lparr> predDirection = winningDirection,
                      confidence = conf,
                      algorithmUsed = ''pattern_matching'',
                      patternId = Some (''pattern_'' @ patternSignature),
                      similarPatternsFound = patternDetails,
                      features = PatternFeatures (map direction recentCandles) totalPatterns
                                   (winningCount, totalPatterns) patternSignature \<rparr>))"

definition predictFromPatterns :: "candle list \<Rightarrow> candle list \<Rightarrow> predictionData option" where
  "predictFromPatterns store recentCandles =
     tallyOutcomes recentCandles (findSimilarPatterns store recentCandles)"

subsection \<open>\<^verbatim>\<open>generatePrediction\<close>\<close>



section \<open>Session cache\<close>

datatype sessionStatus = Active | Expired | Invalid | Pending

record historyEntry =
  entryTimestamp :: int
  entrySuccess :: bool
  entryMessage :: string
  entryMethod :: string

record sessionData =
  isValidated :: bool
  lastValidationCheck :: int
  validationAttempts :: int
  lastActivity :: int
  loginTimestamp :: int
  status :: sessionStatus
  validationHistory :: "historyEntry list"
  expiresAt :: int

text \<open>
  The collection \<^verbatim>\<open>sessiondata\<close> has a unique index on \<^verbatim>\<open>sessionId\<close>, so it is a map from
  session ids to documents. One call reads the clock once: \<open>now\<close> stands for every
  \<^verbatim>\<open>new Date()\<close> and \<^verbatim>\<open>Date.now()\<close> of the call.
\<close>

type_synonym sessionStore = "string \<rightharpoonup> sessionData"

definition hours :: "int \<Rightarrow> int" where
  "hours h = h * 60 * 60 * 1000"

definition findValidatedSession :: "sessionStore \<Rightarrow> int \<Rightarrow> string \<Rightarrow> sessionData option" where
  \<comment> \<open>\<^verbatim>\<open>findOne({sessionId, isValidated: true, status: 'active', expiresAt: {$gt: new Date()}})\<close>\<close>
  "findValidatedSession store now sid =
     (case store sid of
        None \<Rightarrow> None
      | Some s \<Rightarrow> if isValidated s \<and> status s = Active \<and> expiresAt s > now then Some s else None)"

definition needsRevalidation :: "int \<Rightarrow> sessionData \<Rightarrow> bool" where
  "needsRevalidation now s =
     (let maxAge = 2 * 60 * 60 * 1000;
          timeSinceValidation = now - lastValidationCheck s
      in \<not> isValidated s \<or> timeSinceValidation > maxAge \<or> status s \<noteq> Active)"

text \<open>
  A database call that the server rejects throws; the \<^verbatim>\<open>catch\<close> of the caller sees the error.
  The database answers every well-formed operation; outages are outside the model.
\<close>

datatype error = ValidationError | ConflictError

definition updateActivity :: "sessionStore \<Rightarrow> int \<Rightarrow> string \<Rightarrow> error + sessionStore" where
  \<comment> \<open>\<^verbatim>\<open>findOneAndUpdate({sessionId}, {lastActivity: new Date(), $inc: {validationAttempts: 1}})\<close>\<close>
  "updateActivity store now sid =
     (case store sid of
        None \<Rightarrow> Inr store
      | Some s \<Rightarrow> Inr (store(sid \<mapsto> s\<lparr> lastActivity := now, validationAttempts := validationAttempts s + 1 \<rparr>)))"

definition refreshExpiration :: "sessionStore \<Rightarrow> int \<Rightarrow> string \<Rightarrow> int \<Rightarrow> error + sessionStore" where
  \<comment> \<open>the instance method followed by \<^verbatim>\<open>save()\<close>, which writes the two modified paths\<close>
  "refreshExpiration store now sid h =
     (case store sid of
        None \<Rightarrow> Inr store
      | Some s \<Rightarrow> Inr (store(sid \<mapsto> s\<lparr> expiresAt := now + hours h, lastActivity := now \<rparr>)))"

text \<open>
  The object handed to \<^verbatim>\<open>storeValidatedSession\<close>. Its field \<^verbatim>\<open>validationDetails\<close>, when present,
  is spread into the update and sets the whole path \<^verbatim>\<open>validationDetails\<close>, while the same update
  pushes onto \<^verbatim>\<open>validationDetails.validationHistory\<close>: two operators on overlapping paths, which
  the server rejects. Without that field the update is an upsert, and the schema defaults fill
  a document that is inserted.
\<close>

record lastValidationResult =
  resultSuccess :: bool
  resultMessage :: string

record sessionInput =
  inputSessionId :: string
  inputLoginTimestamp :: int
  inputValidationDetails :: "lastValidationResult option"

definition storeValidatedSession :: "sessionStore \<Rightarrow> int \<Rightarrow> sessionInput \<Rightarrow> error + sessionStore" where
  "storeValidatedSession store now input =
     (let sid = inputSessionId input;
          entry = \<lparr> entryTimestamp = now, entrySuccess = True,
                     entryMessage = ''Session validated successfully'', entryMethod = ''puppeteer'' \<rparr>
      in if inputValidationDetails input \<noteq> None then Inl ConflictError
         else
           (case store sid of
              None \<Rightarrow>
                Inr (store(sid \<mapsto> \<lparr> isValidated = True, lastValidationCheck = now, validationAttempts = 0,
                                     lastActivity = now, loginTimestamp = inputLoginTimestamp input,
                                     status = Active, validationHistory = [entry],
                                     expiresAt = now + hours 24 \<rparr>))
            | Some s \<Rightarrow>
                Inr (store(sid \<mapsto> s\<lparr> isValidated := True, status := Active, lastValidationCheck := now,
                                       lastActivity := now, loginTimestamp := inputLoginTimestamp input,
                                       validationHistory := validationHistory s @ [entry] \<rparr>))))"

text \<open>
  The result object of \<^verbatim>\<open>validateQuotexSession\<close>; \<open>source\<close> is \<^verbatim>\<open>details.source\<close>. The slow
  path \<^verbatim>\<open>runPuppeteerValidation\<close> drives a browser: it is a parameter, and the third
  component of the result records whether it was invoked. \<open>validationFailed\<close> is the object
  returned by the \<^verbatim>\<open>catch\<close> of \<^verbatim>\<open>validateQuotexSession\<close>.
\<close>

record validationResult =
  isLoggedIn :: bool
  sessionValid :: bool
  message :: string
  source :: string

definition validationFailed :: validationResult where
  "validationFailed =
     \<lparr> isLoggedIn = False, sessionValid = False, message = ''Session validation failed'', source = [] \<rparr>"

definition freshValidation ::
  "(string \<Rightarrow> validationResult) \<Rightarrow> sessionStore \<Rightarrow> int \<Rightarrow> string \<Rightarrow> sessionStore \<times> validationResult \<times> bool" where
  \<comment> \<open>steps 2 and 3 of \<^verbatim>\<open>validateQuotexSession\<close>, inside its \<^verbatim>\<open>try\<close>\<close>
  "freshValidation runPuppeteerValidation store now sid =
     (let puppeteerResult = runPuppeteerValidation sid
      in if isLoggedIn puppeteerResult then
           (let sessionData = \<lparr> inputSessionId = sid, inputLoginTimestamp = now,
                                  inputValidationDetails =
                                    Some \<lparr> resultSuccess = True, resultMessage = message puppeteerResult \<rparr> \<rparr>
            in case storeValidatedSession store now sessionData of
                 Inl e \<Rightarrow> (store, validationFailed, True)
               | Inr store' \<Rightarrow> (store', puppeteerResult, True))
         else (store, puppeteerResult, True))"

definition validateQuotexSession ::
  "(string \<Rightarrow> validationResult) \<Rightarrow> sessionStore \<Rightarrow> int \<Rightarrow> string \<Rightarrow> sessionStore \<times> validationResult \<times> bool" where
  "validateQuotexSession runPuppeteerValidation store now sid =
     (case findValidatedSession store now sid of
        None \<Rightarrow> freshValidation runPuppeteerValidation store now sid
      | Some cachedSession \<Rightarrow>
          if \<not> needsRevalidation now cachedSession
          then (case updateActivity store now sid of
                  Inl e \<Rightarrow> (store, validationFailed, False)
                | Inr store' \<Rightarrow>
                    (case refreshExpiration store' now sid 24 of
                       Inl e \<Rightarrow> (store', validationFailed, False)
                     | Inr store'' \<Rightarrow>
                         (store'',
                          \<lparr> isLoggedIn = True, sessionValid = True,
                             message = ''User is logged into Quotex (cached)'', source = ''database_cache'' \<rparr>,
                          False)))
          else freshValidation runPuppeteerValidation store now sid)"

section \<open>Prediction documents and verification\<close>

record actualResult =
  actualDirection :: direction
  actualClose :: rat
  verifiedAt :: int
  correct :: bool

record predictionDoc = predictionData +
  predictionId :: nat
  predTimestamp :: int
  predTradingPair :: string
  predSessionId :: string
  actualResult :: "actualResult option"
  accuracy :: "int option"
  isProcessed :: bool

text \<open>
  \<^verbatim>\<open>save()\<close> validates the document against the \<^verbatim>\<open>Prediction\<close> schema and throws when a
  validator fails: \<^verbatim>\<open>algorithmUsed\<close> is an enum of four tags, \<^verbatim>\<open>confidence\<close> and \<^verbatim>\<open>accuracy\<close>
  lie between 0 and 100. The enums of the directions hold by typing.
\<close>

definition predictionSchemaOk :: "predictionDoc \<Rightarrow> bool" where
  "predictionSchemaOk p =
     (algorithmUsed p \<in> set [''logistic_regression'', ''decision_tree'', ''neural_network'', ''pattern_matching'']
      \<and> 0 \<le> confidence p \<and> confidence p \<le> 100
      \<and> (case accuracy p of None \<Rightarrow> True | Some a \<Rightarrow> 0 \<le> a \<and> a \<le> 100))"



fun findById :: "predictionDoc list \<Rightarrow> nat \<Rightarrow> predictionDoc option" where
  "findById [] pid = None"
| "findById (p # ps) pid = (if predictionId p = pid then Some p else findById ps pid)"

fun replaceById :: "predictionDoc list \<Rightarrow> predictionDoc \<Rightarrow> predictionDoc list" where
  "replaceById [] q = []"
| "replaceById (p # ps) q = (if predictionId p = predictionId q then q # ps else p # replaceById ps q)"

text \<open>
  \<^verbatim>\<open>verifyPrediction\<close>: \<open>None\<close> is the \<^verbatim>\<open>null\<close> returned when the prediction is not found or
  when \<^verbatim>\<open>save()\<close> throws (the \<^verbatim>\<open>catch\<close> swallows the error).
\<close>

definition verifyPrediction ::
  "predictionDoc list \<Rightarrow> int \<Rightarrow> nat \<Rightarrow> candle \<Rightarrow> predictionDoc list \<times> predictionDoc option" where
  "verifyPrediction store now pid actualCandle =
     (case findById store pid of
        None \<Rightarrow> (store, None)
      | Some prediction \<Rightarrow>
          (let isCorrect = (predDirection prediction = direction actualCandle);
               updated = prediction\<lparr>
                 actualResult := Some \<lparr> actualDirection = direction actualCandle,
                                        actualClose = close actualCandle,
                                        verifiedAt = now,
                                        correct = isCorrect \<rparr>,
                 accuracy := Some (if isCorrect then 100 else 0),
                 isProcessed := True \<rparr>
           in if predictionSchemaOk updated then (replaceById store updated, Some updated)
              else (store, None)))"

section \<open>Screen capture service\<close>

subsection \<open>Building a candle: \<^verbatim>\<open>extractCandleData\<close> and \<^verbatim>\<open>generateFallbackData\<close>\<close>

text \<open>
  The visual analysis is an external collaborator; its result is an input. The direction it
  reports is one of the strings \<^verbatim>\<open>'up'\<close>, \<^verbatim>\<open>'down'\<close>, \<^verbatim>\<open>'unknown'\<close>, or absent.

  The prices are IEEE doubles computed from the extracted or mock price and from
  \<^verbatim>\<open>Math.random()\<close>, then cut by \<^verbatim>\<open>parseFloat(x.toFixed(5))\<close>. That arithmetic is not
  modelled: the numbers it delivers in one call are an input, namely the five rounded prices
  (a finite double is a rational) and the outcome of the comparison \<^verbatim>\<open>close > open\<close> on the
  doubles before rounding.
\<close>

datatype visualDirection = VUp | VDown | VUnknown

record analysis =
  colorsDirection :: "visualDirection option"
  signalDirection :: "visualDirection option"
  visualConfidence :: int

datatype visualAnalysis = AnalysisError | Analysis analysis

record numbers =
  numOpen :: rat
  numHigh :: rat
  numLow :: rat
  numClose :: rat
  numChange :: rat
  closeAboveOpen :: bool

definition generateFallbackData :: "string \<Rightarrow> int \<Rightarrow> numbers \<Rightarrow> candle" where
  "generateFallbackData sid ts n =
     \<lparr> timestamp = ts, tradingPair = ''EUR/USD OTC'', timeframe = 60,
        open = numOpen n, high = numHigh n, low = numLow n, close = numClose n,
        direction = (if closeAboveOpen n then Up else Down),
        change = numChange n,
        extractionMethod = ''fallback_mock'', confidenceScore = 30,
        sessionId = sid \<rparr>"

definition pickDirection :: "analysis \<Rightarrow> visualDirection" where
  \<comment> \<open>\<^verbatim>\<open>analysis.colors?.direction || analysis.signal?.direction || 'unknown'\<close>\<close>
  "pickDirection a =
     (case colorsDirection a of
        Some d \<Rightarrow> d
      | None \<Rightarrow> (case signalDirection a of Some d \<Rightarrow> d | None \<Rightarrow> VUnknown))"

definition extractCandleData :: "string \<Rightarrow> int \<Rightarrow> visualAnalysis \<Rightarrow> numbers \<Rightarrow> candle" where
  "extractCandleData sid ts va n =
     (case va of
        AnalysisError \<Rightarrow> generateFallbackData sid ts n
      | Analysis a \<Rightarrow>
          (let dir = pickDirection a;
               confidenceScore = (if visualConfidence a = 0 then 50 else visualConfidence a)
           in \<lparr> timestamp = ts, tradingPair = ''EUR/USD OTC'', timeframe = 60,
                open = numOpen n, high = numHigh n, low = numLow n, close = numClose n,
                direction = (case dir of
                               VUnknown \<Rightarrow> (if closeAboveOpen n then Up else Down)
                             | VUp \<Rightarrow> Up
                             | VDown \<Rightarrow> Down),
                change = numChange n,
                extractionMethod = ''advanced_visual_ml'', confidenceScore = confidenceScore,
                sessionId = sid \<rparr>))"

subsection \<open>Persisting a candle: \<^verbatim>\<open>saveCandleData\<close>\<close>

definition recentDuplicate :: "candle list \<Rightarrow> candle \<Rightarrow> candle option" where
  \<comment> \<open>\<^verbatim>\<open>findOne\<close> with \<^verbatim>\<open>timestamp: {$gte: t - 30000, $lte: t + 30000}\<close>, same pair and session\<close>
  "recentDuplicate store candleData =
     find (\<lambda>c. timestamp c \<ge> timestamp candleData - 30000
              \<and> timestamp c \<le> timestamp candleData + 30000
              \<and> tradingPair c = tradingPair candleData
              \<and> sessionId c = sessionId candleData) store"

text \<open>
  \<^verbatim>\<open>new CandleData(candleData).save()\<close> validates the document against the \<^verbatim>\<open>CandleData\<close>
  schema and throws when a validator fails: \<^verbatim>\<open>captureData.extractionMethod\<close> is an enum of
  three tags and \<^verbatim>\<open>captureData.confidenceScore\<close> lies between 0 and 100. \<^verbatim>\<open>saveCandleData\<close>
  rethrows the error.
\<close>

definition candleSchemaOk :: "candle \<Rightarrow> bool" where
  "candleSchemaOk c =
     (extractionMethod c \<in> set [''tesseract'', ''opencv'', ''mock'']
      \<and> 0 \<le> confidenceScore c \<and> confidenceScore c \<le> 100)"

definition saveCandleData :: "candle list \<Rightarrow> candle \<Rightarrow> error + candle list \<times> candle" where
  "saveCandleData store candleData =
     (case recentDuplicate store candleData of
        Some dup \<Rightarrow> Inr (store, dup)
      | None \<Rightarrow> if candleSchemaOk candleData then Inr (store @ [candleData], candleData)
                else Inl ValidationError)"


subsection \<open>One capture cycle: \<^verbatim>\<open>captureAndProcess\<close>\<close>






section \<open>Data routes\<close>

record query =
  qSessionId :: "string option"
  qTradingPair :: "string option"
  qLimit :: "nat option"
  qStartDate :: "int option"
  qEndDate :: "int option"

record stats =
  totalPredictions :: nat
  verifiedPredictions :: nat
  statsAccuracy :: "int option"

record response =
  httpStatus :: nat
  success :: bool
  requiresAuth :: bool
  authenticated :: bool
  respCandles :: "candle list"
  respPredictions :: "predictionDoc list"
  respPrediction :: "predictionDoc option"
  responseStats :: "stats option"

definition missing :: "string option \<Rightarrow> bool" where
  \<comment> \<open>\<^verbatim>\<open>!sessionId\<close>: absent or the empty string\<close>
  "missing sid = (case sid of None \<Rightarrow> True | Some s \<Rightarrow> s = [])"

definition pairOf :: "query \<Rightarrow> string" where
  "pairOf q = (case qTradingPair q of None \<Rightarrow> ''EUR/USD OTC'' | Some p \<Rightarrow> p)"

definition limitTo :: "nat \<Rightarrow> 'a list \<Rightarrow> 'a list" where
  \<comment> \<open>the cursor's \<^verbatim>\<open>limit(n)\<close>; \<^verbatim>\<open>limit(0)\<close> sets no limit\<close>
  "limitTo n xs = (if n = 0 then xs else take n xs)"

definition authRequired :: response where
  "authRequired =
     \<lparr> httpStatus = 401, success = False, requiresAuth = True, authenticated = False,
        respCandles = [], respPredictions = [], respPrediction = None, responseStats = None \<rparr>"

definition inRange :: "query \<Rightarrow> candle \<Rightarrow> bool" where
  "inRange q c =
     ((case qStartDate q of None \<Rightarrow> True | Some a \<Rightarrow> timestamp c \<ge> a)
      \<and> (case qEndDate q of None \<Rightarrow> True | Some b \<Rightarrow> timestamp c \<le> b))"

definition getCandles ::
  "(string \<Rightarrow> validationResult) \<Rightarrow> sessionStore \<Rightarrow> int \<Rightarrow> candle list \<Rightarrow> query \<Rightarrow> sessionStore \<times> response" where
  "getCandles runPuppeteerValidation sessions now candleStore q =
     (if missing (qSessionId q) then (sessions, authRequired)
      else
        (let sid = (case qSessionId q of None \<Rightarrow> [] | Some s \<Rightarrow> s);
             (sessions', validation, slow) = validateQuotexSession runPuppeteerValidation sessions now sid
         in if \<not> isLoggedIn validation then (sessions', authRequired)
            else
              (sessions',
               \<lparr> httpStatus = 200, success = True, requiresAuth = False, authenticated = True,
                  respCandles = limitTo (case qLimit q of None \<Rightarrow> 20 | Some n \<Rightarrow> n)
                              (sort_key (\<lambda>c. - timestamp c)
                                 (filter (\<lambda>c. tradingPair c = pairOf q \<and> sessionId c = sid \<and> inRange q c)
                                    candleStore)),
                  respPredictions = [], respPrediction = None, responseStats = None \<rparr>)))"

definition getPredictions :: "predictionDoc list \<Rightarrow> query \<Rightarrow> response" where
  "getPredictions predictionStore q =
     \<lparr> httpStatus = 200, success = True, requiresAuth = False, authenticated = False,
        respCandles = [],
        respPredictions = limitTo (case qLimit q of None \<Rightarrow> 10 | Some n \<Rightarrow> n)
                        (sort_key (\<lambda>p. - predTimestamp p)
                           (filter (\<lambda>p. predTradingPair p = pairOf q
                                        \<and> (missing (qSessionId q) \<or> Some (predSessionId p) = qSessionId q))
                              predictionStore)),
        respPrediction = None, responseStats = None \<rparr>"

definition getRecentPredictions :: "predictionDoc list \<Rightarrow> string \<Rightarrow> nat \<Rightarrow> predictionDoc list" where
  "getRecentPredictions predictionStore sid limit =
     limitTo limit (sort_key (\<lambda>p. - predTimestamp p) (filter (\<lambda>p. predSessionId p = sid) predictionStore))"

definition getPrediction ::
  "(string \<Rightarrow> validationResult) \<Rightarrow> sessionStore \<Rightarrow> int \<Rightarrow> predictionDoc list \<Rightarrow> query \<Rightarrow> sessionStore \<times> response" where
  "getPrediction runPuppeteerValidation sessions now predictionStore q =
     (if missing (qSessionId q) then (sessions, authRequired)
      else
        (let sid = (case qSessionId q of None \<Rightarrow> [] | Some s \<Rightarrow> s);
             (sessions', validation, slow) = validateQuotexSession runPuppeteerValidation sessions now sid
         in if \<not> isLoggedIn validation then (sessions', authRequired)
            else
              (case sort_key (\<lambda>p. - predTimestamp p)
                      (filter (\<lambda>p. predTradingPair p = pairOf q \<and> predSessionId p = sid) predictionStore) of
                 [] \<Rightarrow>
                   (sessions',
                    \<lparr> httpStatus = 200, success = True, requiresAuth = False, authenticated = True,
                       respCandles = [], respPredictions = [], respPrediction = None, responseStats = None \<rparr>)
               | latestPrediction # _ \<Rightarrow>
                   (let recentPredictions = getRecentPredictions predictionStore sid 10;
                        verified = filter (\<lambda>p. actualResult p \<noteq> None) recentPredictions;
                        correctOnes = filter (\<lambda>p. map_option correct (actualResult p) = Some True) verified
                    in (sessions',
                        \<lparr> httpStatus = 200, success = True, requiresAuth = False, authenticated = True,
                           respCandles = [], respPredictions = [], respPrediction = Some latestPrediction,
                           responseStats = Some
                             \<lparr> totalPredictions = length recentPredictions,
                                verifiedPredictions = length verified,
                                statsAccuracy =
                                  (if length verified > 0
                                   then Some (round (rat_of_nat (length correctOnes) / rat_of_nat (length verified) * 100))
                                   else None) \<rparr> \<rparr>)))))"

section \<open>Reference notions used in the statements\<close>

text \<open>
  The specification speaks of the streak (the run of identical directions ending at the most
  recent observation), of the reversal of a direction and of up/down counts. These are its
  notions, written down independently of the code.
\<close>

definition streak :: "direction list \<Rightarrow> nat" where
  "streak ds = length (takeWhile (\<lambda>d. d = last ds) (rev ds))"

fun opposite :: "direction \<Rightarrow> direction" where
  "opposite Up = Down"
| "opposite Down = Up"

definition countOf :: "direction \<Rightarrow> direction list \<Rightarrow> nat" where
  "countOf d ds = length (filter (\<lambda>x. x = d) ds)"

text \<open>
  An existing observation lies in the duplicate window of a new one when it has the same
  trading pair and session and its timestamp is at most 30 seconds away.
\<close>

definition inWindow :: "candle \<Rightarrow> candle \<Rightarrow> bool" where
  "inWindow new c \<longleftrightarrow>
     tradingPair c = tradingPair new \<and> sessionId c = sessionId new
     \<and> \<bar>timestamp c - timestamp new\<bar> \<le> 30000"

text \<open>The record a prediction becomes when it is graded against an actual candle at an instant.\<close>

definition grade :: "predictionDoc \<Rightarrow> int \<Rightarrow> candle \<Rightarrow> predictionDoc" where
  "grade p now actualCandle =
     p\<lparr> actualResult := Some \<lparr> actualDirection = direction actualCandle,
                                actualClose = close actualCandle,
                                verifiedAt = now,
                                correct = (predDirection p = direction actualCandle) \<rparr>,
        accuracy := Some (if predDirection p = direction actualCandle then 100 else 0),
        isProcessed := True \<rparr>"

text \<open>
  The pattern search in the words of the specification: a window of the history matches at
  position \<open>j\<close> when its directions equal the signature; the outcomes are the directions of
  the observations that follow the matching windows. \<open>eligible\<close> is the history of the
  trading pair strictly before the current window, oldest first; \<open>claimedOutcomes\<close> scans its
  last 1000 observations and keeps every match.
\<close>

definition matchAt :: "direction list \<Rightarrow> candle list \<Rightarrow> nat \<Rightarrow> bool" where
  "matchAt signature historical j \<longleftrightarrow>
     map direction (take (length signature) (drop j historical)) = signature"

definition outcomesIn :: "direction list \<Rightarrow> candle list \<Rightarrow> direction list" where
  "outcomesIn signature historical =
     map (\<lambda>j. direction (historical ! (j + length signature)))
       (filter (matchAt signature historical) [0 ..< length historical - length signature])"

definition eligible :: "candle list \<Rightarrow> candle \<Rightarrow> candle list" where
  "eligible store first =
     sort_key timestamp
       (filter (\<lambda>c. tradingPair c = tradingPair first \<and> timestamp c < timestamp first) store)"

definition claimedOutcomes :: "candle list \<Rightarrow> candle list \<Rightarrow> direction list" where
  "claimedOutcomes store recentCandles =
     (case recentCandles of
        [] \<Rightarrow> []
      | first # _ \<Rightarrow>
          outcomesIn (map direction recentCandles)
            (drop (length (eligible store first) - 1000) (eligible store first)))"

definition matchRecord :: "direction list \<Rightarrow> candle list \<Rightarrow> nat \<Rightarrow> patternMatch" where
  "matchRecord signature historical j =
     \<lparr> matchTimestamp = timestamp (historical ! j),
        pattern = map direction (take (length signature) (drop j historical)),
        nextDirection = direction (historical ! (j + length signature)),
        nextCandle = (open (historical ! (j + length signature)),
                      close (historical ! (j + length signature)),
                      change (historical ! (j + length signature))),
        similarity = 100 \<rparr>"

section \<open>Concrete data for the evaluated instances\<close>

definition candleAt :: "int \<Rightarrow> direction \<Rightarrow> candle" where
  "candleAt t d =
     \<lparr> timestamp = t, tradingPair = ''EUR/USD OTC'', timeframe = 60,
        open = 108 / 100, high = 1081 / 1000, low = 1079 / 1000,
        close = (case d of Up \<Rightarrow> 10805 / 10000 | Down \<Rightarrow> 10795 / 10000),
        direction = d,
        change = (case d of Up \<Rightarrow> 5 / 10000 | Down \<Rightarrow> - (5 / 10000)),
        extractionMethod = ''mock'', confidenceScore = 50, sessionId = ''s1'' \<rparr>"

definition upStreak :: "candle list" where
  "upStreak = [candleAt 60000 Down, candleAt 120000 Down, candleAt 180000 Up,
               candleAt 240000 Up, candleAt 300000 Up]"

definition patternPred0 :: predictionData where
  "patternPred0 =
     \<lparr> predDirection = Up, confidence = 67, algorithmUsed = ''pattern_matching'',
        patternId = Some ''pattern_up-down-up-down-up'', similarPatternsFound = [],
        features = PatternFeatures [Up, Down, Up, Down, Up] 12 (8, 12) ''up-down-up-down-up'' \<rparr>"

definition matchOf :: "direction \<Rightarrow> patternMatch" where
  "matchOf d = \<lparr> matchTimestamp = 0, pattern = [Up, Down, Up, Down, Up], nextDirection = d,
                 nextCandle = (108 / 100, 108 / 100, 0), similarity = 100 \<rparr>"

definition trendPredDown :: predictionData where
  "trendPredDown =
     \<lparr> predDirection = Down, confidence = 75, algorithmUsed = ''trend_analysis'',
        patternId = None, similarPatternsFound = [],
        features = TrendFeatures [Down, Down, Up, Up, Up] 3 2 3 (Some Up) ''bullish'' \<rparr>"

definition sessionAt :: "int \<Rightarrow> sessionData" where
  "sessionAt checked =
     \<lparr> isValidated = True, lastValidationCheck = checked, validationAttempts = 0,
        lastActivity = checked, loginTimestamp = checked, status = Active,
        validationHistory = [], expiresAt = checked + 86400000 \<rparr>"

definition notLoggedIn :: "string \<Rightarrow> validationResult" where
  "notLoggedIn sid =
     \<lparr> isLoggedIn = False, sessionValid = True,
        message = ''User is not logged into Quotex'', source = ''fresh_puppeteer_validation'' \<rparr>"

definition prediction0 :: predictionDoc where
  "prediction0 =
     \<lparr> predDirection = Up, confidence = 75, algorithmUsed = ''trend_analysis'',
        patternId = None, similarPatternsFound = [],
        features = TrendFeatures [Up, Up, Down, Down, Down] 2 3 3 (Some Down) ''bearish'',
        predictionId = 1, predTimestamp = 600000, predTradingPair = ''EUR/USD OTC'',
        predSessionId = ''s1'', actualResult = None, accuracy = None, isProcessed = False \<rparr>"

definition prediction1 :: predictionDoc where
  "prediction1 =
     \<lparr> predDirection = Up, confidence = 67, algorithmUsed = ''pattern_matching'',
        patternId = Some ''pattern_up-down-up-down-up'', similarPatternsFound = [],
        features = PatternFeatures [Up, Down, Up, Down, Up] 12 (8, 12) ''up-down-up-down-up'',
        predictionId = 1, predTimestamp = 600000, predTradingPair = ''EUR/USD OTC'',
        predSessionId = ''s1'', actualResult = None, accuracy = None, isProcessed = False \<rparr>"

definition loggedIn :: "string \<Rightarrow> validationResult" where
  "loggedIn sid =
     \<lparr> isLoggedIn = True, sessionValid = True,
        message = ''User is logged into Quotex'', source = ''fresh_puppeteer_validation'' \<rparr>"

definition greenAnalysis :: analysis where
  "greenAnalysis = \<lparr> colorsDirection = Some VUp, signalDirection = None, visualConfidence = 80 \<rparr>"

definition risingNumbers :: numbers where
  "risingNumbers =
     \<lparr> numOpen = 108 / 100, numHigh = 10806 / 10000, numLow = 10799 / 10000,
        numClose = 10805 / 10000, numChange = 5 / 10000, closeAboveOpen = True \<rparr>"




definition noSession :: query where
  "noSession = \<lparr> qSessionId = None, qTradingPair = None, qLimit = None, qStartDate = None, qEndDate = None \<rparr>"

definition thirtyUps :: "candle list" where
  "thirtyUps = map (\<lambda>i. candleAt (60000 * int i) Up) [1 ..< 31]"

definition recentUps :: "candle list" where
  "recentUps = [candleAt 1860000 Up, candleAt 1920000 Up, candleAt 1980000 Up,
                candleAt 2040000 Up, candleAt 2100000 Up]"

definition longHistory :: "candle list" where
  "longHistory = replicate 1000 (candleAt 60000 Down) @ replicate 6 (candleAt 120000 Up)"

section \<open>Trend fallback\<close>

lemma consecutiveLoop_takeWhile:
  "n \<le> length ds \<Longrightarrow>
   consecutiveLoop ds (Some l) (int n - 1) c = c + length (takeWhile (\<lambda>d. d = l) (rev (take n ds)))"
proof (induction n arbitrary: c)
  case 0
  then show ?case by (simp add: consecutiveLoop.simps)
next
  case (Suc n)
  then have n: "n < length ds" by simp
  have tk: "take (Suc n) ds = take n ds @ [ds ! n]"
    using n by (simp add: take_Suc_conv_app_nth)
  show ?case
  proof (cases "ds ! n = l")
    case True
    have "consecutiveLoop ds (Some l) (int (Suc n) - 1) c = consecutiveLoop ds (Some l) (int n - 1) (c + 1)"
      using True by (subst consecutiveLoop.simps) simp
    also have "\<dots> = (c + 1) + length (takeWhile (\<lambda>d. d = l) (rev (take n ds)))"
      using Suc.IH n by simp
    finally show ?thesis using True tk by simp
  next
    case False
    have "consecutiveLoop ds (Some l) (int (Suc n) - 1) c = c"
      using False by (subst consecutiveLoop.simps) simp
    then show ?thesis using False tk by simp
  qed
qed

lemma rev_last_take: "ds \<noteq> [] \<Longrightarrow> rev ds = last ds # rev (take (length ds - 1) ds)"
proof -
  assume "ds \<noteq> []"
  then have "ds = butlast ds @ [last ds]" by simp
  then have "rev ds = rev (butlast ds @ [last ds])" by simp
  then show ?thesis by (simp add: butlast_conv_take)
qed

lemma streak_loop:
  assumes "ds \<noteq> []"
  shows "consecutiveLoop ds (Some (last ds)) (int (length ds) - 2) 1 = streak ds"
proof -
  have len: "length ds - 1 \<le> length ds" by simp
  have "length ds \<ge> 1" using assms by (cases ds) simp_all
  then have idx: "int (length ds) - 2 = int (length ds - 1) - 1" by linarith
  have "consecutiveLoop ds (Some (last ds)) (int (length ds - 1) - 1) 1
      = 1 + length (takeWhile (\<lambda>d. d = last ds) (rev (take (length ds - 1) ds)))"
    by (rule consecutiveLoop_takeWhile [OF len])
  moreover have "streak ds = 1 + length (takeWhile (\<lambda>d. d = last ds) (rev (take (length ds - 1) ds)))"
    unfolding streak_def by (subst rev_last_take [OF assms]) simp
  ultimately show ?thesis by (simp only: idx)
qed

lemma count_total: "countOf Up ds + countOf Down ds = length ds"
  unfolding countOf_def
proof (induction ds)
  case Nil
  then show ?case by simp
next
  case (Cons d ds)
  then show ?case by (cases d) auto
qed

lemma reverseOf_opposite: "reverseOf (Some d) = opposite d"
  by (cases d) (simp_all add: reverseOf_def)

lemma trend_direction:
  assumes "recentCandles \<noteq> []"
  shows "predDirection (predictFromTrend recentCandles) =
     (if streak (map direction recentCandles) \<ge> 3 then opposite (last (map direction recentCandles))
      else if countOf Up (map direction recentCandles) > countOf Down (map direction recentCandles)
           then Up else Down)"
  using assms streak_loop [of "map direction recentCandles"]
  by (simp add: predictFromTrend_def Let_def reverseOf_opposite countOf_def)

lemma trend_confidence:
  assumes "recentCandles \<noteq> []"
  shows "confidence (predictFromTrend recentCandles) =
     min 95 (if streak (map direction recentCandles) \<ge> 3
             then 60 + int (streak (map direction recentCandles)) * 5
             else 55 + \<bar>int (countOf Up (map direction recentCandles))
                        - int (countOf Down (map direction recentCandles))\<bar> * 5)"
  using assms streak_loop [of "map direction recentCandles"]
  by (simp add: predictFromTrend_def Let_def countOf_def)

lemma trend_tag: "algorithmUsed (predictFromTrend recentCandles) = ''trend_analysis''"
  by (simp add: predictFromTrend_def Let_def)

text \<open>
  Claim C4. For the directions of the last five observations: when the run of identical
  directions ending at the most recent observation has length at least 3, the trend method
  predicts the reversal of the last direction with confidence \<open>min 95 (60 + streak * 5)\<close>;
  otherwise it predicts the direction that holds the majority among the five, with
  confidence \<open>min 95 (55 + |upCount - downCount| * 5)\<close>.
\<close>

theorem predictFromTrend_spec:
  assumes "length recentCandles = 5"
  shows "let ds = map direction recentCandles;
             p = predictFromTrend recentCandles
         in (streak ds \<ge> 3 \<longrightarrow>
               predDirection p = opposite (last ds) \<and> confidence p = min 95 (60 + int (streak ds) * 5))
          \<and> (streak ds < 3 \<longrightarrow>
               countOf (predDirection p) ds > countOf (opposite (predDirection p)) ds
               \<and> confidence p = min 95 (55 + \<bar>int (countOf Up ds) - int (countOf Down ds)\<bar> * 5))"
proof -
  define ds where "ds = map direction recentCandles"
  have ne: "recentCandles \<noteq> []" using assms by auto
  have tot: "countOf Up ds + countOf Down ds = 5" using count_total [of ds] assms by (simp add: ds_def)
  have d: "predDirection (predictFromTrend recentCandles) =
     (if streak ds \<ge> 3 then opposite (last ds)
      else if countOf Up ds > countOf Down ds then Up else Down)"
    unfolding ds_def by (rule trend_direction [OF ne])
  have c: "confidence (predictFromTrend recentCandles) =
     min 95 (if streak ds \<ge> 3 then 60 + int (streak ds) * 5
      else 55 + \<bar>int (countOf Up ds) - int (countOf Down ds)\<bar> * 5)"
    unfolding ds_def by (rule trend_confidence [OF ne])
  have maj: "streak ds < 3 \<Longrightarrow>
      countOf (predDirection (predictFromTrend recentCandles)) ds
        > countOf (opposite (predDirection (predictFromTrend recentCandles))) ds"
  proof -
    assume s: "streak ds < 3"
    show ?thesis
    proof (cases "countOf Up ds > countOf Down ds")
      case True
      then show ?thesis using d s by simp
    next
      case False
      then have "countOf Down ds > countOf Up ds" using tot by presburger
      then show ?thesis using d s False by simp
    qed
  qed
  show ?thesis
    unfolding Let_def ds_def [symmetric]
    using d c maj by simp
qed

theorem predictFromTrend_spec_witness:
  "length upStreak = 5 \<and> streak (map direction upStreak) = 3
   \<and> predDirection (predictFromTrend upStreak) = Down
   \<and> confidence (predictFromTrend upStreak) = 75"
  using predictFromTrend_spec [of upStreak]
  by (simp add: upStreak_def candleAt_def streak_def Let_def)

section \<open>Pattern tally\<close>

lemma tally_fold:
  "foldl tallyStep ((u, d), details) ms =
     ((u + countOf Up (map nextDirection ms), d + countOf Down (map nextDirection ms)),
      details @ map (\<lambda>p. \<lparr> detailTimestamp = matchTimestamp p,
                           detailNextDirection = nextDirection p,
                           detailSimilarity = (if similarity p = 0 then 100 else similarity p) \<rparr>) ms)"
proof (induction ms arbitrary: u d details)
  case Nil
  then show ?case by (simp add: countOf_def)
next
  case (Cons m ms)
  then show ?case by (cases "nextDirection m") (simp_all add: countOf_def)
qed

lemma tally_direction:
  assumes "similarPatterns \<noteq> []"
  shows "map_option predDirection (tallyOutcomes recentCandles similarPatterns) =
     Some (if countOf Up (map nextDirection similarPatterns) > countOf Down (map nextDirection similarPatterns)
           then Up else Down)"
  using assms by (simp add: tallyOutcomes_def Let_def tally_fold)

lemma tally_confidence:
  assumes "similarPatterns \<noteq> []"
  shows "map_option confidence (tallyOutcomes recentCandles similarPatterns) =
     Some (min 95 (round (rat_of_nat (max (countOf Up (map nextDirection similarPatterns))
                                         (countOf Down (map nextDirection similarPatterns)))
                          / rat_of_nat (length similarPatterns) * 100)))"
proof -
  have "rat_of_nat (countOf Up (map nextDirection similarPatterns))
        + rat_of_nat (countOf Down (map nextDirection similarPatterns))
      = rat_of_nat (length similarPatterns)"
    using count_total [of "map nextDirection similarPatterns"] by (simp flip: of_nat_add)
  then show ?thesis
    using assms by (simp add: tallyOutcomes_def Let_def tally_fold)
qed

text \<open>
  Claim C3. For the matched historical outcomes the pattern method tallies: with zero matches
  it yields no result; otherwise its direction is the argmax of the up/down tally, an exact
  tie going to \<open>Down\<close>, and its confidence is \<open>min 95 (round (winningCount / totalOutcomes * 100))\<close>.
  \<^verbatim>\<open>predictFromPatterns\<close> is this tally applied to the matches of \<^verbatim>\<open>findSimilarPatterns\<close>.
\<close>

theorem tally_spec:
  "let outcomes = map nextDirection similarPatterns;
       up = countOf Up outcomes; down = countOf Down outcomes
   in predictFromPatterns store recentCandles
        = tallyOutcomes recentCandles (findSimilarPatterns store recentCandles)
    \<and> (similarPatterns = [] \<longrightarrow> tallyOutcomes recentCandles similarPatterns = None)
    \<and> (similarPatterns \<noteq> [] \<longrightarrow>
         (\<exists>p. tallyOutcomes recentCandles similarPatterns = Some p
            \<and> (up > down \<longrightarrow> predDirection p = Up)
            \<and> (down > up \<longrightarrow> predDirection p = Down)
            \<and> (up = down \<longrightarrow> predDirection p = Down)
            \<and> confidence p = min 95 (round (rat_of_nat (max up down) / rat_of_nat (length outcomes) * 100))))"
proof (cases "similarPatterns = []")
  case True
  then show ?thesis by (simp add: tallyOutcomes_def predictFromPatterns_def Let_def)
next
  case False
  from tally_direction [OF False, of recentCandles] obtain p where
    p: "tallyOutcomes recentCandles similarPatterns = Some p" by (cases "tallyOutcomes recentCandles similarPatterns") auto
  have d: "predDirection p =
     (if countOf Up (map nextDirection similarPatterns) > countOf Down (map nextDirection similarPatterns)
           then Up else Down)"
    using tally_direction [OF False, of recentCandles] p by simp
  have c: "confidence p = min 95 (round (rat_of_nat (max (countOf Up (map nextDirection similarPatterns))
                                         (countOf Down (map nextDirection similarPatterns)))
                          / rat_of_nat (length similarPatterns) * 100))"
    using tally_confidence [OF False, of recentCandles] p by simp
  show ?thesis unfolding Let_def using False p d c by (simp add: predictFromPatterns_def)
qed

theorem tally_spec_witness:
  "map_option predDirection (tallyOutcomes upStreak (replicate 8 (matchOf Up) @ replicate 4 (matchOf Down))) = Some Up
 \<and> map_option confidence (tallyOutcomes upStreak (replicate 8 (matchOf Up) @ replicate 4 (matchOf Down))) = Some 67"
proof -
  have r: "round (200 / 3 :: rat) = 67" by code_simp
  show ?thesis
    using tally_spec [where similarPatterns = "replicate 8 (matchOf Up) @ replicate 4 (matchOf Down)"
                       and recentCandles = upStreak and store = thirtyUps]
    by (auto simp: Let_def countOf_def matchOf_def r)
qed

section \<open>Fusion\<close>

text \<open>
  Claim C2, as the code has it. When both methods produce a result the pattern direction is
  emitted, with confidence \<open>min 95 (patternConfidence + 10)\<close> and tag
  \<^verbatim>\<open>pattern_matching_trend_confirmed\<close> when they agree, and with confidence
  \<open>max 50 (patternConfidence - 15)\<close> and tag \<^verbatim>\<open>pattern_matching_trend_conflict\<close> when they
  disagree. When the pattern method yields no result the trend result is returned verbatim,
  so it keeps the tag \<^verbatim>\<open>trend_analysis\<close> that \<^verbatim>\<open>predictFromTrend\<close> gave it. The three tags
  are pairwise different.
\<close>

theorem combinePredictions_spec:
  "(predDirection patternPred = predDirection trendPred \<longrightarrow>
      combinePredictions (Some patternPred) (Some trendPred) =
        Some (patternPred\<lparr> confidence := min 95 (confidence patternPred + 10),
                           algorithmUsed := ''pattern_matching_trend_confirmed'' \<rparr>))
   \<and> (predDirection patternPred \<noteq> predDirection trendPred \<longrightarrow>
      combinePredictions (Some patternPred) (Some trendPred) =
        Some (patternPred\<lparr> confidence := max 50 (confidence patternPred - 15),
                           algorithmUsed := ''pattern_matching_trend_conflict'' \<rparr>))
   \<and> combinePredictions None (Some trendPred) = Some trendPred
   \<and> combinePredictions None (Some (predictFromTrend recentCandles)) = Some (predictFromTrend recentCandles)
   \<and> algorithmUsed (predictFromTrend recentCandles) = ''trend_analysis''
   \<and> ''pattern_matching_trend_confirmed'' \<noteq> ''pattern_matching_trend_conflict''
   \<and> ''pattern_matching_trend_confirmed'' \<noteq> ''trend_analysis''
   \<and> ''pattern_matching_trend_conflict'' \<noteq> ''trend_analysis''"
  by (simp add: trend_tag)

theorem combinePredictions_spec_witness:
  "predDirection patternPred0 \<noteq> predDirection trendPredDown
   \<and> map_option predDirection (combinePredictions (Some patternPred0) (Some trendPredDown)) = Some Up
   \<and> map_option confidence (combinePredictions (Some patternPred0) (Some trendPredDown)) = Some 52
   \<and> predDirection patternPred0 = predDirection (trendPredDown\<lparr> predDirection := Up \<rparr>)
   \<and> map_option confidence
        (combinePredictions (Some patternPred0) (Some (trendPredDown\<lparr> predDirection := Up \<rparr>))) = Some 77"
  using combinePredictions_spec [of patternPred0 trendPredDown upStreak]
        combinePredictions_spec [of patternPred0 "trendPredDown\<lparr> predDirection := Up \<rparr>" upStreak]
  by (simp add: patternPred0_def trendPredDown_def)

text \<open>
  The tags of the claim as stated are not the ones emitted: the trend result passed through
  unchanged carries \<^verbatim>\<open>trend_analysis\<close>, not \<^verbatim>\<open>trend_only\<close>, and an agreeing pair is tagged
  \<^verbatim>\<open>pattern_matching_trend_confirmed\<close>, not \<^verbatim>\<open>pattern_trend_confirmed\<close>.
\<close>

theorem combinePredictions_tags_counterexample:
  "map_option algorithmUsed (combinePredictions None (Some (predictFromTrend upStreak))) \<noteq> Some ''trend_only''
   \<and> map_option algorithmUsed
         (combinePredictions (Some patternPred0) (Some (trendPredDown\<lparr> predDirection := Up \<rparr>)))
       \<noteq> Some ''pattern_trend_confirmed''
   \<and> map_option algorithmUsed (combinePredictions (Some patternPred0) (Some trendPredDown))
       \<noteq> Some ''pattern_trend_conflict''"
  by (simp add: trend_tag patternPred0_def trendPredDown_def)

section \<open>Session cache lookup\<close>

lemma cache_hit_iff:
  "snd (snd (validateQuotexSession v store now sid)) = False \<longleftrightarrow>
     (\<exists>s. store sid = Some s \<and> status s = Active \<and> isValidated s \<and> expiresAt s > now
          \<and> now - lastValidationCheck s \<le> hours 2)"
  by (auto simp: validateQuotexSession_def findValidatedSession_def needsRevalidation_def
        freshValidation_def updateActivity_def refreshExpiration_def hours_def Let_def
        split: option.splits if_splits sum.splits)

lemma cache_hit_result:
  "snd (snd (validateQuotexSession v store now sid)) = False \<Longrightarrow>
     isLoggedIn (fst (snd (validateQuotexSession v store now sid)))
     \<and> source (fst (snd (validateQuotexSession v store now sid))) = ''database_cache''"
  by (auto simp: validateQuotexSession_def findValidatedSession_def
        freshValidation_def updateActivity_def refreshExpiration_def Let_def
        split: option.splits if_splits sum.splits)

text \<open>
  Claim C1, as the code has it. The session lookup answers "logged in" from the cache,
  without invoking the Puppeteer validation, exactly when the stored record has status
  \<open>Active\<close>, is validated, expires strictly in the future and was last validated at most two
  hours ago (a record validated exactly two hours ago is still served from the cache). For
  a record that fails one of these conditions, and when there is no record, the lookup does
  not answer from the cache: it falls through to the fresh validation.
\<close>

theorem validateQuotexSession_cache:
  "let (store', result, slow) = validateQuotexSession v store now sid
   in (\<not> slow \<longleftrightarrow>
         (\<exists>s. store sid = Some s \<and> status s = Active \<and> isValidated s \<and> expiresAt s > now
              \<and> now - lastValidationCheck s \<le> hours 2))
    \<and> (\<not> slow \<longrightarrow> isLoggedIn result \<and> source result = ''database_cache'')"
proof -
  obtain store' result slow where r: "validateQuotexSession v store now sid = (store', result, slow)"
    by (cases "validateQuotexSession v store now sid") auto
  have a: "\<not> slow \<longleftrightarrow>
         (\<exists>s. store sid = Some s \<and> status s = Active \<and> isValidated s \<and> expiresAt s > now
              \<and> now - lastValidationCheck s \<le> hours 2)"
    using cache_hit_iff [of v store now sid] r by simp
  have b: "\<not> slow \<longrightarrow> isLoggedIn result \<and> source result = ''database_cache''"
    using cache_hit_result [of v store now sid] r by simp
  show ?thesis using r a b by auto
qed

theorem validateQuotexSession_cache_witness:
  "(let (store', result, slow) = validateQuotexSession notLoggedIn [''s1'' \<mapsto> sessionAt 0] 3600000 ''s1''
    in \<not> slow \<and> isLoggedIn result)
   \<and> (let (store', result, slow) = validateQuotexSession notLoggedIn [''s1'' \<mapsto> sessionAt 0] 7200001 ''s1''
    in slow)
   \<and> (let (store', result, slow) = validateQuotexSession notLoggedIn [''s1'' \<mapsto> sessionAt 0] 3600000 ''s2''
    in slow)"
  using validateQuotexSession_cache [of notLoggedIn "[''s1'' \<mapsto> sessionAt 0]" 3600000 "''s1''"]
        validateQuotexSession_cache [of notLoggedIn "[''s1'' \<mapsto> sessionAt 0]" 7200001 "''s1''"]
        validateQuotexSession_cache [of notLoggedIn "[''s1'' \<mapsto> sessionAt 0]" 3600000 "''s2''"]
  by (auto simp: sessionAt_def hours_def split: prod.splits)

text \<open>
  A record last validated exactly two hours ago is not under the two-hour window, yet it is
  served from the cache.
\<close>

theorem revalidationWindow_counterexample:
  "\<not> (7200000 - lastValidationCheck (sessionAt 0) < hours 2)
   \<and> validateQuotexSession notLoggedIn [''s1'' \<mapsto> sessionAt 0] 7200000 ''s1''
       = ([''s1'' \<mapsto> (sessionAt 0)\<lparr> lastActivity := 7200000, validationAttempts := 1, expiresAt := 7200000 + 86400000 \<rparr>],
          \<lparr> isLoggedIn = True, sessionValid = True,
             message = ''User is logged into Quotex (cached)'', source = ''database_cache'' \<rparr>,
          False)"
  by (simp add: validateQuotexSession_def findValidatedSession_def needsRevalidation_def
        refreshExpiration_def updateActivity_def sessionAt_def hours_def Let_def)

text \<open>
  The fresh validation of a session the verifier finds logged in: the update of
  \<^verbatim>\<open>storeValidatedSession\<close> is rejected, the \<^verbatim>\<open>catch\<close> answers, and nothing is cached.
\<close>

lemma fresh_logged_in_not_cached:
  "validateQuotexSession loggedIn Map.empty now sid = (Map.empty, validationFailed, True)"
  by (simp add: validateQuotexSession_def findValidatedSession_def freshValidation_def
        storeValidatedSession_def loggedIn_def Let_def)

section \<open>Duplicate suppression\<close>

lemma recentDuplicate_Some:
  "recentDuplicate store new = Some dup \<Longrightarrow> dup \<in> set store \<and> inWindow new dup"
  by (auto simp: recentDuplicate_def inWindow_def find_Some_iff)

lemma recentDuplicate_None:
  "recentDuplicate store new = None \<longleftrightarrow> \<not> list_ex (inWindow new) store"
  by (auto simp: recentDuplicate_def inWindow_def find_None_iff list_ex_iff)

text \<open>
  The duplicate half of the check: an observation of the same trading pair and session
  within 30 seconds (bounds included) makes the new one a duplicate; the stored record is
  returned as a normal result and the store is unchanged. With no such observation the
  document is saved, which the schema must accept.
\<close>

lemma saveCandleData_duplicate:
  assumes "list_ex (inWindow new) store"
  shows "\<exists>dup. saveCandleData store new = Inr (store, dup) \<and> dup \<in> set store \<and> inWindow new dup"
proof -
  obtain dup where d: "recentDuplicate store new = Some dup"
    using assms recentDuplicate_None [of store new] by (cases "recentDuplicate store new") auto
  then show ?thesis
    using recentDuplicate_Some [OF d] by (simp add: saveCandleData_def)
qed

lemma saveCandleData_fresh:
  assumes "\<not> list_ex (inWindow new) store"
  shows "saveCandleData store new =
           (if candleSchemaOk new then Inr (store @ [new], new) else Inl ValidationError)"
  using assms recentDuplicate_None [of store new] by (auto simp: saveCandleData_def)


text \<open>
  Claim C7. The claim holds for the duplicate: a candle the capture service builds 25 seconds
  after a stored one is dropped and the stored record returned. It fails for the candle built
  35 seconds after: that one passes the duplicate check, but the service tags it
  \<^verbatim>\<open>advanced_visual_ml\<close> (or \<^verbatim>\<open>fallback_mock\<close>), which the enum of the \<^verbatim>\<open>CandleData\<close> schema does
  not list, so \<^verbatim>\<open>save()\<close> throws and the candle is not stored.
\<close>

theorem saveCandleData_service_candle:
  "saveCandleData [candleAt 60000 Up] (extractCandleData ''s1'' 85000 (Analysis greenAnalysis) risingNumbers)
     = Inr ([candleAt 60000 Up], candleAt 60000 Up)
   \<and> recentDuplicate [candleAt 60000 Up]
        (extractCandleData ''s1'' 95000 (Analysis greenAnalysis) risingNumbers) = None
   \<and> saveCandleData [candleAt 60000 Up] (extractCandleData ''s1'' 95000 (Analysis greenAnalysis) risingNumbers)
     = Inl ValidationError
   \<and> saveCandleData [candleAt 60000 Up] (extractCandleData ''s1'' 95000 AnalysisError risingNumbers)
     = Inl ValidationError
   \<and> saveCandleData [] (extractCandleData ''s1'' 60000 (Analysis greenAnalysis) risingNumbers)
     = Inl ValidationError"
  by (simp add: saveCandleData_def recentDuplicate_def extractCandleData_def generateFallbackData_def
        candleSchemaOk_def candleAt_def greenAnalysis_def risingNumbers_def pickDirection_def Let_def)

section \<open>Verification\<close>

lemma findById_replace:
  "findById store (predictionId q) = Some p \<Longrightarrow> findById (replaceById store q) (predictionId q) = Some q"
  by (induction store) (auto split: if_splits)

lemma findById_replace_other:
  "pid \<noteq> predictionId q \<Longrightarrow> findById (replaceById store q) pid = findById store pid"
  by (induction store) auto

lemma replace_replace:
  "predictionId q = predictionId r \<Longrightarrow> replaceById (replaceById store q) r = replaceById store r"
  by (induction store) auto

lemma findById_id: "findById store pid = Some p \<Longrightarrow> predictionId p = pid"
  by (induction store) (auto split: if_splits)

lemma grade_schema: "predictionSchemaOk p \<Longrightarrow> predictionSchemaOk (grade p t c)"
  by (simp add: predictionSchemaOk_def grade_def)

lemma verify_found:
  assumes "findById store pid = Some p" and "predictionSchemaOk p"
  shows "verifyPrediction store now pid actualCandle
         = (replaceById store (grade p now actualCandle), Some (grade p now actualCandle))"
proof -
  have "predictionSchemaOk (grade p now actualCandle)"
    using assms(2) by (rule grade_schema)
  then show ?thesis
    using assms(1) by (simp add: verifyPrediction_def grade_def Let_def)
qed

lemma grade_grade: "grade (grade p t1 c1) t2 c2 = grade p t2 c2"
  by (simp add: grade_def)

lemma grade_id: "predictionId (grade p t c) = predictionId p"
  by (simp add: grade_def)

text \<open>
  Claim C8, as the code has it. Verification of a stored prediction against an actual candle
  sets \<open>actualResult\<close> with \<open>correct\<close> true exactly when the predicted direction equals
  the candle's direction and with \<open>verifiedAt\<close> the instant of the call, whether or not the
  record was graded before; the other records are untouched. Verification is not guarded by
  the presence of an earlier result: a second run overwrites the first, so that two runs
  leave the store as the second run alone would. A stored record satisfies the schema, which
  the grading does not affect.
\<close>

theorem verifyPrediction_spec:
  assumes "findById store pid = Some p" and "predictionSchemaOk p"
  shows "verifyPrediction store t1 pid c1 = (replaceById store (grade p t1 c1), Some (grade p t1 c1))
     \<and> findById (fst (verifyPrediction store t1 pid c1)) pid = Some (grade p t1 c1)
     \<and> actualResult (grade p t1 c1) =
          Some \<lparr> actualDirection = direction c1, actualClose = close c1, verifiedAt = t1,
                 correct = (predDirection p = direction c1) \<rparr>
     \<and> (\<forall>other. other \<noteq> pid \<longrightarrow>
           findById (fst (verifyPrediction store t1 pid c1)) other = findById store other)
     \<and> fst (verifyPrediction (fst (verifyPrediction store t1 pid c1)) t2 pid c2)
         = fst (verifyPrediction store t2 pid c2)"
proof -
  have id: "predictionId p = pid" by (rule findById_id [OF assms(1)])
  have v1: "verifyPrediction store t1 pid c1 = (replaceById store (grade p t1 c1), Some (grade p t1 c1))"
    using assms by (rule verify_found)
  have f1: "findById (replaceById store (grade p t1 c1)) pid = Some (grade p t1 c1)"
    using findById_replace [of store "grade p t1 c1" p] assms(1) id by (simp add: grade_id)
  have ar: "actualResult (grade p t1 c1) =
          Some \<lparr> actualDirection = direction c1, actualClose = close c1, verifiedAt = t1,
                 correct = (predDirection p = direction c1) \<rparr>"
    by (simp add: grade_def)
  have oth: "\<forall>other. other \<noteq> pid \<longrightarrow>
           findById (replaceById store (grade p t1 c1)) other = findById store other"
    using findById_replace_other [of _ "grade p t1 c1" store] id by (simp add: grade_id)
  have w2: "predictionSchemaOk (grade p t1 c1)" using assms(2) by (rule grade_schema)
  have v2: "verifyPrediction (replaceById store (grade p t1 c1)) t2 pid c2
      = (replaceById (replaceById store (grade p t1 c1)) (grade (grade p t1 c1) t2 c2),
         Some (grade (grade p t1 c1) t2 c2))"
    using f1 w2 by (rule verify_found)
  have v3: "verifyPrediction store t2 pid c2 = (replaceById store (grade p t2 c2), Some (grade p t2 c2))"
    using assms by (rule verify_found)
  have rr: "replaceById (replaceById store (grade p t1 c1)) (grade p t2 c2) = replaceById store (grade p t2 c2)"
    by (rule replace_replace) (simp add: grade_id)
  show ?thesis
    using v1 f1 ar oth v2 v3 rr by (simp add: grade_grade)
qed

theorem verifyPrediction_spec_witness:
  "findById [prediction1] 1 = Some prediction1
   \<and> predictionSchemaOk prediction1
   \<and> map_option correct (actualResult (grade prediction1 660000 (candleAt 660000 Down))) = Some False
   \<and> fst (verifyPrediction [prediction1] 660000 1 (candleAt 660000 Down))
       = [grade prediction1 660000 (candleAt 660000 Down)]"
  using verifyPrediction_spec [of "[prediction1]" 1 prediction1 660000 "candleAt 660000 Down" 660000 "candleAt 660000 Down"]
  by (simp add: prediction1_def predictionSchemaOk_def grade_def candleAt_def)

text \<open>
  Re-running verification on a graded record is not a no-op: the same candle at a later
  instant changes \<open>verifiedAt\<close>, and a different candle replaces the grading. The record
  carries the tag \<^verbatim>\<open>pattern_matching\<close>, which the schema accepts.
\<close>

theorem verifyPrediction_rerun_counterexample:
  "map actualResult (fst (verifyPrediction [prediction1] 660000 1 (candleAt 660000 Down)))
     = [Some \<lparr> actualDirection = Down, actualClose = 10795 / 10000, verifiedAt = 660000, correct = False \<rparr>]
   \<and> fst (verifyPrediction
            (fst (verifyPrediction [prediction1] 660000 1 (candleAt 660000 Down)))
            720000 1 (candleAt 660000 Down))
      \<noteq> fst (verifyPrediction [prediction1] 660000 1 (candleAt 660000 Down))
   \<and> map actualResult
        (fst (verifyPrediction
               (fst (verifyPrediction [prediction1] 660000 1 (candleAt 660000 Down)))
               720000 1 (candleAt 720000 Up)))
     = [Some \<lparr> actualDirection = Up, actualClose = 10805 / 10000, verifiedAt = 720000, correct = True \<rparr>]"
  by (simp add: verifyPrediction_def predictionSchemaOk_def prediction1_def candleAt_def Let_def)

section \<open>The capture cycle and verification\<close>













section \<open>Data routes and authentication\<close>

text \<open>
  Claim C10. The routes \<^verbatim>\<open>/candles\<close> and \<^verbatim>\<open>/prediction\<close> validate the session before they
  read any data; the route \<^verbatim>\<open>/predictions\<close> does not: a request without a session id, or
  with any session id whatever, is answered with status 200 and the stored predictions.
\<close>

theorem getPredictions_unauthenticated:
  "getPredictions [prediction0] noSession =
     \<lparr> httpStatus = 200, success = True, requiresAuth = False, authenticated = False,
        respCandles = [], respPredictions = [prediction0], respPrediction = None, responseStats = None \<rparr>
   \<and> getPredictions [prediction0] (noSession\<lparr> qSessionId := Some ''s1'' \<rparr>) =
     \<lparr> httpStatus = 200, success = True, requiresAuth = False, authenticated = False,
        respCandles = [], respPredictions = [prediction0], respPrediction = None, responseStats = None \<rparr>"
  by (simp add: getPredictions_def noSession_def prediction0_def missing_def pairOf_def limitTo_def)

text \<open>The two guarded routes reject with the authentication-required response, which carries no data.\<close>

lemma guarded_routes_reject:
  assumes "missing (qSessionId q)
           \<or> (\<exists>sid. qSessionId q = Some sid
                 \<and> \<not> isLoggedIn (fst (snd (validateQuotexSession v sessions now sid))))"
  shows "snd (getCandles v sessions now candleStore q) = authRequired
       \<and> snd (getPrediction v sessions now predictionStore q) = authRequired"
  using assms
  by (auto simp: getCandles_def getPrediction_def Let_def missing_def split: prod.splits option.splits)

lemma authRequired_empty:
  "httpStatus authRequired = 401 \<and> requiresAuth authRequired \<and> respCandles authRequired = []
   \<and> respPredictions authRequired = [] \<and> respPrediction authRequired = None"
  by (simp add: authRequired_def)

section \<open>Pattern search\<close>

lemma isMatch_eq:
  assumes "length windowPattern = length targetPattern"
  shows "isMatch targetPattern windowPattern \<longleftrightarrow> windowPattern = targetPattern"
proof
  assume "isMatch targetPattern windowPattern"
  then have "\<forall>i < length targetPattern. targetPattern ! i = windowPattern ! i"
    by (simp add: isMatch_def list_all_iff)
  then show "windowPattern = targetPattern"
    using assms by (simp add: list_eq_iff_nth_eq)
next
  assume "windowPattern = targetPattern"
  then show "isMatch targetPattern windowPattern"
    by (simp add: isMatch_def list_all_iff)
qed

lemma scanWindows_filter:
  "scanWindows target historical i acc =
     acc @ map (matchRecord target historical)
             (filter (matchAt target historical) [i ..< length historical - length target])"
proof (induction "length historical - length target - i" arbitrary: i acc)
  case 0
  then have "\<not> int i \<le> int (length historical) - int (length target) - 1" by linarith
  moreover have "[i ..< length historical - length target] = []" using 0 by simp
  ultimately show ?case by (subst scanWindows.simps) simp
next
  case (Suc n)
  then have lt: "i < length historical - length target" by linarith
  then have cond: "int i \<le> int (length historical) - int (length target) - 1" by linarith
  have inside: "i + length target < length historical" using lt by linarith
  have len: "length (map direction (take (length target) (drop i historical))) = length target"
    using inside by simp
  have m: "isMatch target (map direction (take (length target) (drop i historical))) \<longleftrightarrow> matchAt target historical i"
    using isMatch_eq [OF len] by (simp add: matchAt_def)
  have up: "[i ..< length historical - length target] = i # [Suc i ..< length historical - length target]"
    using lt by (simp add: upt_conv_Cons)
  have n: "n = length historical - length target - Suc i" using Suc.hyps(2) by linarith
  show ?case
  proof (cases "matchAt target historical i")
    case True
    have "scanWindows target historical i acc =
            scanWindows target historical (Suc i) (acc @ [matchRecord target historical i])"
      using cond m True inside by (subst scanWindows.simps) (simp add: Let_def matchRecord_def)
    also have "\<dots> = (acc @ [matchRecord target historical i])
          @ map (matchRecord target historical)
              (filter (matchAt target historical) [Suc i ..< length historical - length target])"
      by (rule Suc.hyps(1) [OF n])
    finally show ?thesis using True up by simp
  next
    case False
    have "scanWindows target historical i acc = scanWindows target historical (Suc i) acc"
      using cond m False by (subst scanWindows.simps) (simp add: Let_def)
    also have "\<dots> = acc
          @ map (matchRecord target historical)
              (filter (matchAt target historical) [Suc i ..< length historical - length target])"
      by (rule Suc.hyps(1) [OF n])
    finally show ?thesis using False up by simp
  qed
qed

lemma matchAt_positional:
  assumes "j + length signature \<le> length historical"
  shows "matchAt signature historical j \<longleftrightarrow>
           (\<forall>m < length signature. direction (historical ! (j + m)) = signature ! m)"
proof -
  have len: "length (map direction (take (length signature) (drop j historical))) = length signature"
    using assms by simp
  have nth: "\<And>m. m < length signature \<Longrightarrow>
      map direction (take (length signature) (drop j historical)) ! m = direction (historical ! (j + m))"
    using assms by simp
  show ?thesis
    unfolding matchAt_def using len nth by (auto simp: list_eq_iff_nth_eq)
qed

lemma findSimilarPatterns_outcomes:
  "map nextDirection (findSimilarPatterns store (first # rest)) =
     take 20 (outcomesIn (map direction (first # rest)) (historicalCandles store first))"
proof -
  have "map nextDirection (map (matchRecord t h) js) = map (\<lambda>j. direction (h ! (j + length t))) js" for t h js
    by (simp add: matchRecord_def)
  then show ?thesis
    by (simp add: findSimilarPatterns_def scanWindows_filter outcomesIn_def take_map del: upt_Suc)
qed


lemma candleAt_sel:
  "direction (candleAt t d) = d" "timestamp (candleAt t d) = t"
  "tradingPair (candleAt t d) = ''EUR/USD OTC''"
  by (simp_all add: candleAt_def)

lemma eligible_longHistory: "eligible longHistory (candleAt 1860000 Up) = longHistory"
proof -
  have f: "filter (\<lambda>c. tradingPair c = tradingPair (candleAt 1860000 Up)
                      \<and> timestamp c < timestamp (candleAt 1860000 Up)) longHistory = longHistory"
    by (simp add: longHistory_def candleAt_sel)
  have "sorted (map timestamp longHistory)"
    by (simp add: longHistory_def candleAt_sel sorted_append)
  then have "sort_key timestamp longHistory = longHistory"
    by (rule sort_key_id_if_sorted)
  then show ?thesis by (simp add: eligible_def f)
qed

lemma historical_longHistory:
  "historicalCandles longHistory (candleAt 1860000 Up) = replicate 1000 (candleAt 60000 Down)"
proof -
  have "historicalCandles longHistory (candleAt 1860000 Up) = take 1000 (eligible longHistory (candleAt 1860000 Up))"
    by (simp add: historicalCandles_def eligible_def)
  also have "\<dots> = take 1000 longHistory" by (simp only: eligible_longHistory)
  also have "\<dots> = replicate 1000 (candleAt 60000 Down)" by (simp add: longHistory_def)
  finally show ?thesis .
qed

lemma no_match_in_downs: "\<not> matchAt [Up, Up, Up, Up, Up] (replicate n (candleAt t Down)) j"
proof
  assume "matchAt [Up, Up, Up, Up, Up] (replicate n (candleAt t Down)) j"
  then have "map direction (take (length [Up, Up, Up, Up, Up]) (drop j (replicate n (candleAt t Down))))
               = [Up, Up, Up, Up, Up]"
    by (simp only: matchAt_def)
  then have "set (map direction (take (length [Up, Up, Up, Up, Up]) (drop j (replicate n (candleAt t Down)))))
               = set [Up, Up, Up, Up, Up]"
    by (rule arg_cong)
  then have "Up \<in> set (map direction (take (length [Up, Up, Up, Up, Up]) (drop j (replicate n (candleAt t Down)))))"
    by simp
  then show False
    by (auto simp: candleAt_sel dest!: in_set_takeD in_set_dropD)
qed

lemma code_outcomes_longHistory: "findSimilarPatterns longHistory recentUps = []"
proof -
  have "findSimilarPatterns longHistory recentUps
      = take 20 (scanWindows [Up, Up, Up, Up, Up] (historicalCandles longHistory (candleAt 1860000 Up)) 0 [])"
    by (simp add: findSimilarPatterns_def recentUps_def candleAt_sel)
  also have "\<dots> = take 20 (scanWindows [Up, Up, Up, Up, Up] (replicate 1000 (candleAt 60000 Down)) 0 [])"
    by (simp only: historical_longHistory)
  also have "\<dots> = []"
    by (simp add: scanWindows_filter filter_empty_conv no_match_in_downs del: upt_Suc)
  finally show ?thesis .
qed

lemma recent_window_matches:
  assumes "j < 995"
  shows "matchAt [Up, Up, Up, Up, Up]
           (replicate 994 (candleAt 60000 Down) @ replicate 6 (candleAt 120000 Up)) j \<longleftrightarrow> j = 994"
proof -
  have pos: "matchAt [Up, Up, Up, Up, Up]
           (replicate 994 (candleAt 60000 Down) @ replicate 6 (candleAt 120000 Up)) j \<longleftrightarrow>
        (\<forall>m < length [Up, Up, Up, Up, Up].
            direction ((replicate 994 (candleAt 60000 Down) @ replicate 6 (candleAt 120000 Up)) ! (j + m))
              = [Up, Up, Up, Up, Up] ! m)"
    using assms by (intro matchAt_positional) simp
  have sig: "[Up, Up, Up, Up, Up] ! m = Up" if "m < length [Up, Up, Up, Up, Up]" for m
  proof -
    from that have "m \<in> {0, 1, 2, 3, 4}" by auto
    then show ?thesis by auto
  qed
  show ?thesis
  proof (cases "j = 994")
    case True
    have "direction ((replicate 994 (candleAt 60000 Down) @ replicate 6 (candleAt 120000 Up)) ! (994 + m)) = Up"
      if "m < length [Up, Up, Up, Up, Up]" for m
      using that by (simp add: nth_append candleAt_sel)
    then show ?thesis using True pos sig by simp
  next
    case False
    then have j: "j < 994" using assms by simp
    have "direction ((replicate 994 (candleAt 60000 Down) @ replicate 6 (candleAt 120000 Up)) ! (j + 0)) = Down"
      using j by (simp add: nth_append candleAt_sel)
    moreover have "[Up, Up, Up, Up, Up] ! 0 = Up" by simp
    moreover have "0 < length [Up, Up, Up, Up, Up]" by simp
    ultimately have "\<not> (\<forall>m < length [Up, Up, Up, Up, Up].
            direction ((replicate 994 (candleAt 60000 Down) @ replicate 6 (candleAt 120000 Up)) ! (j + m))
              = [Up, Up, Up, Up, Up] ! m)"
      by (metis direction.distinct(1))
    then show ?thesis using False pos by simp
  qed
qed

lemma claimed_outcomes_longHistory: "claimedOutcomes longHistory recentUps = [Up]"
proof -
  have d: "drop (length longHistory - 1000) longHistory
             = replicate 994 (candleAt 60000 Down) @ replicate 6 (candleAt 120000 Up)"
    by (simp add: longHistory_def)
  have l: "length (replicate 994 (candleAt 60000 Down) @ replicate 6 (candleAt 120000 Up))
             - length [Up, Up, Up, Up, Up] = 995"
    by simp
  have "filter (matchAt [Up, Up, Up, Up, Up]
                  (replicate 994 (candleAt 60000 Down) @ replicate 6 (candleAt 120000 Up))) [0 ..< 995]
        = filter (\<lambda>j. j = 994) [0 ..< 995]"
    by (rule filter_cong) (auto simp: recent_window_matches)
  also have "\<dots> = [994]"
  proof -
    have "[0 ..< 995] = [0 ..< 994] @ [994]"
      using upt_Suc_append [of 0 994] by simp
    then show ?thesis by (simp del: upt_Suc add: filter_empty_conv)
  qed
  finally have f: "filter (matchAt [Up, Up, Up, Up, Up]
                  (replicate 994 (candleAt 60000 Down) @ replicate 6 (candleAt 120000 Up))) [0 ..< 995] = [994]" .
  have "claimedOutcomes longHistory recentUps
      = outcomesIn [Up, Up, Up, Up, Up]
          (drop (length (eligible longHistory (candleAt 1860000 Up)) - 1000) (eligible longHistory (candleAt 1860000 Up)))"
    by (simp add: claimedOutcomes_def recentUps_def candleAt_sel)
  also have "\<dots> = outcomesIn [Up, Up, Up, Up, Up]
          (replicate 994 (candleAt 60000 Down) @ replicate 6 (candleAt 120000 Up))"
    by (simp only: eligible_longHistory d)
  also have "\<dots> = map (\<lambda>j. direction ((replicate 994 (candleAt 60000 Down) @ replicate 6 (candleAt 120000 Up))
                                     ! (j + length [Up, Up, Up, Up, Up]))) [994]"
    by (simp only: outcomesIn_def l f)
  also have "\<dots> = [Up]"
    by (simp add: nth_append candleAt_sel)
  finally show ?thesis .
qed

text \<open>
  Claim C5, as the code has it. The pattern search takes the observations of the trading pair
  whose timestamps are strictly before the first observation of the current window, sorts
  them by ascending timestamp and scans the first 1000 of them, the oldest ones, with a
  sliding window of the signature's length. A window matches exactly when its directions
  equal the signature position by position, and the outcome of a match is the direction of
  the observation right after the window. Only the first 20 matches are returned, and they
  are the ones the tally counts.
\<close>

theorem findSimilarPatterns_spec:
  "findSimilarPatterns store [] = []
   \<and> map nextDirection (findSimilarPatterns store (first # rest)) =
       take 20 (outcomesIn (map direction (first # rest)) (historicalCandles store first))
   \<and> historicalCandles store first = take 1000 (eligible store first)
   \<and> sorted (map timestamp (eligible store first))
   \<and> set (eligible store first) =
       {c \<in> set store. tradingPair c = tradingPair first \<and> timestamp c < timestamp first}
   \<and> (j + length signature \<le> length historical \<longrightarrow>
        (matchAt signature historical j \<longleftrightarrow>
           (\<forall>m < length signature. direction (historical ! (j + m)) = signature ! m)))"
proof -
  have a: "findSimilarPatterns store [] = []" by (simp add: findSimilarPatterns_def)
  have b: "historicalCandles store first = take 1000 (eligible store first)"
    by (simp add: historicalCandles_def eligible_def)
  have c: "sorted (map timestamp (eligible store first))"
    by (simp add: eligible_def)
  have d: "set (eligible store first) =
       {c \<in> set store. tradingPair c = tradingPair first \<and> timestamp c < timestamp first}"
    by (auto simp: eligible_def)
  show ?thesis
    using a b c d findSimilarPatterns_outcomes [of store first rest]
      matchAt_positional [of j signature historical]
    by blast
qed

theorem findSimilarPatterns_spec_witness:
  "map nextDirection (findSimilarPatterns thirtyUps recentUps) = replicate 20 Up
   \<and> 2 + length [Up, Up] \<le> length upStreak
   \<and> matchAt [Up, Up] upStreak 2"
proof -
  have e: "take 20 (outcomesIn (map direction recentUps) (historicalCandles thirtyUps (candleAt 1860000 Up)))
             = replicate 20 Up"
    by code_simp
  have r: "recentUps = candleAt 1860000 Up
             # [candleAt 1920000 Up, candleAt 1980000 Up, candleAt 2040000 Up, candleAt 2100000 Up]"
    by (simp add: recentUps_def)
  have m: "\<forall>m < length [Up, Up]. direction (upStreak ! (2 + m)) = [Up, Up] ! m"
    by (simp add: upStreak_def candleAt_sel nth_Cons less_Suc_eq split: nat.splits)
  have l: "2 + length [Up, Up] \<le> length upStreak" by (simp add: upStreak_def)
  show ?thesis
    using e m l
      findSimilarPatterns_spec [of thirtyUps "candleAt 1860000 Up"
        "[candleAt 1920000 Up, candleAt 1980000 Up, candleAt 2040000 Up, candleAt 2100000 Up]"
        2 "[Up, Up]" upStreak]
    by (simp only: r [symmetric])
qed

text \<open>
  Thirty historical observations that all match: the claim counts 25 outcomes, the search
  returns 20. A history of 1006 observations whose only match lies among the most recent
  ones: the claim finds it, the search, which scans the oldest 1000, finds nothing.
\<close>

theorem findSimilarPatterns_counterexample:
  "length (findSimilarPatterns thirtyUps recentUps) = 20
   \<and> length (claimedOutcomes thirtyUps recentUps) = 25
   \<and> findSimilarPatterns longHistory recentUps = []
   \<and> claimedOutcomes longHistory recentUps = [Up]"
proof -
  have "length (findSimilarPatterns thirtyUps recentUps) = 20
        \<and> length (claimedOutcomes thirtyUps recentUps) = 25"
    by code_simp
  then show ?thesis
    using code_outcomes_longHistory claimed_outcomes_longHistory by simp
qed

end
